theory Spec2Isabelle
  imports Main
begin

section \<open>The utility layer of pykeops: \<open>pykeops/common/utils.py\<close>\<close>

subsection \<open>Exceptions\<close>

text \<open>
  Every exception the modelled functions can raise is a value. A \<open>ValueError\<close> carries
  its message: the two fixed texts of \<open>axis2cat\<close> and \<open>cat2axis\<close>, or the message of
  \<open>check_broadcasting\<close>, which is formatted from the two shapes it was called with.
  \<open>UnboundLocalError\<close> names the local variable that was read before any assignment.
  \<open>OtherError\<close> stands for any exception raised by code outside this file (an import,
  a compilation action).
\<close>

datatype message =
    Text string
  | IncompatibleBatchDimensions "int list" "int list"

datatype error =
    ValueError message
  | UnboundLocalError string
  | FileNotFoundError string
  | OtherError string

subsection \<open>\<open>axis2cat\<close> and \<open>cat2axis\<close>\<close>

definition axis2cat :: "int \<Rightarrow> error + int" where
  "axis2cat axis =
     (if axis \<in> set [0, 1] then Inr ((axis + 1) mod 2)
      else Inl (ValueError (Text ''Axis should be 0 or 1.'')))"

definition cat2axis :: "int \<Rightarrow> error + int" where
  "cat2axis cat =
     (if cat \<in> set [0, 1] then Inr ((cat + 1) mod 2)
      else Inl (ValueError (Text ''Category should be Vi or Vj.'')))"

subsection \<open>\<open>get_tools\<close>\<close>

text \<open>
  The two branches import a class of another module and construct it; neither module is
  part of this file, so the outcome of "import and construct" is a parameter for each
  (\<open>Inl\<close> when the import or the constructor raises). The local variable \<open>tools\<close> is
  assigned in the two branches only: there is no \<open>else\<close>, so for any other \<open>lang\<close> the
  final \<open>return tools\<close> reads an unassigned local, which raises
  \<open>UnboundLocalError\<close> in Python.
\<close>

definition get_tools :: "(error + 'h) \<Rightarrow> (error + 'h) \<Rightarrow> string \<Rightarrow> error + 'h" where
  "get_tools numpytools torchtools lang =
     (if lang = ''numpy'' then numpytools
      else if lang = ''torch'' \<or> lang = ''pytorch'' then torchtools
      else Inl (UnboundLocalError ''tools''))"

subsection \<open>\<open>max_tuple\<close> and \<open>check_broadcasting\<close>\<close>

text \<open>
  A shape is a tuple of Python integers, here an \<open>int list\<close>; \<open>None\<close> is \<open>None\<close>.
  \<open>(1,) * k\<close> is the empty tuple when \<open>k\<close> is negative, which is what \<open>nat\<close> of a
  negative integer gives to \<open>replicate\<close>.
\<close>

definition max_tuple :: "int list \<Rightarrow> int list \<Rightarrow> int list" where
  "max_tuple a b = map (\<lambda>(a_i, b_i). max a_i b_i) (zip a b)"

text \<open>The \<open>for\<close> loop over the zipped padded shapes: it raises at the first bad pair.\<close>

fun check_loop :: "int list \<Rightarrow> int list \<Rightarrow> (int \<times> int) list \<Rightarrow> error + unit" where
  "check_loop dims_1 dims_2 [] = Inr ()"
| "check_loop dims_1 dims_2 ((dim_1, dim_2) # rest) =
     (if dim_1 \<noteq> 1 \<and> dim_2 \<noteq> 1 \<and> dim_1 \<noteq> dim_2
      then Inl (ValueError (IncompatibleBatchDimensions dims_1 dims_2))
      else check_loop dims_1 dims_2 rest)"

definition padded_dims :: "int list \<Rightarrow> int list \<Rightarrow> int list" where
  "padded_dims other dims =
     replicate (nat (int (length other) - int (length dims))) 1 @ dims"

fun check_broadcasting :: "int list option \<Rightarrow> int list option \<Rightarrow> error + int list option" where
  "check_broadcasting None dims_2 = Inr dims_2"
| "check_broadcasting (Some dims_1) None = Inr (Some dims_1)"
| "check_broadcasting (Some dims_1) (Some dims_2) =
     (let padded_dims_1 = padded_dims dims_2 dims_1;
          padded_dims_2 = padded_dims dims_1 dims_2
      in case check_loop dims_1 dims_2 (zip padded_dims_1 padded_dims_2) of
           Inl e \<Rightarrow> Inl e
         | Inr _ \<Rightarrow> Inr (Some (max_tuple padded_dims_1 padded_dims_2)))"

text \<open>
  The words of the specification, to compare with the code: the shorter shape is
  left-padded with 1s to the length of the longer one, and a pair of aligned dimensions is
  compatible when the two are equal or one of them is 1.
\<close>

definition left_pad :: "nat \<Rightarrow> int list \<Rightarrow> int list" where
  "left_pad n dims = replicate (n - length dims) 1 @ dims"

definition compatible :: "int \<times> int \<Rightarrow> bool" where
  "compatible p = (fst p = snd p \<or> fst p = 1 \<or> snd p = 1)"

subsection \<open>The world of the build wrapper\<close>

text \<open>
  \<open>wrapper_filelock\<close> acts on the file system, on the advisory locks of the operating
  system, on the modules Python can find and on the global \<open>pykeops.config.build_type\<close>.
  The model keeps these four in a record.
  \<^item> \<open>folders\<close>: the directories that exist, by the path the caller names them with, each
    with its files (name to content);
  \<^item> \<open>flocks\<close>: the lock files on which an exclusive \<open>flock\<close> is held at the moment;
  \<^item> \<open>modules\<close>: the names for which \<open>importlib.util.find_spec\<close> finds a module;
  \<^item> \<open>build_type\<close>: the value of \<open>pykeops.config.build_type\<close>.
  The first argument of the wrapped function is an object with the attributes
  \<open>build_folder\<close> and \<open>dll_name\<close>.
\<close>

type_synonym path = string

record world =
  folders :: "path \<rightharpoonup> (string \<rightharpoonup> string)"
  flocks :: "(path \<times> string) set"
  modules :: "string set"
  build_type :: string

record keops_op =
  build_folder :: path
  dll_name :: string

text \<open>
  \<open>module_exists\<close> is the probe \<open>importlib.util.find_spec(dllname) is not None\<close>, for
  the names on which \<open>find_spec\<close> returns.
\<close>

definition module_exists :: "string \<Rightarrow> world \<Rightarrow> bool" where
  "module_exists dllname w = (dllname \<in> modules w)"

text \<open>
  \<open>os.makedirs(bf, exist_ok=True)\<close>: an existing directory is left as it is. The
  definition is the call that returns; the paths on which \<open>os.makedirs\<close> raises (the
  empty path, a path that names a regular file) are outside this model, in which a path
  names a directory or nothing.
\<close>

definition makedirs :: "path \<Rightarrow> world \<Rightarrow> world" where
  "makedirs bf w =
     (case folders w bf of
        Some _ \<Rightarrow> w
      | None \<Rightarrow> w\<lparr>folders := (folders w)(bf \<mapsto> Map.empty)\<rparr>)"

text \<open>
  \<open>open(os.path.join(bf, name), 'w')\<close>: the file is created, or truncated when it is
  there; a missing directory raises \<open>FileNotFoundError\<close>.
\<close>

definition create_file :: "path \<Rightarrow> string \<Rightarrow> world \<Rightarrow> world" where
  "create_file bf name w =
     w\<lparr>folders := (folders w)(bf \<mapsto> (case folders w bf of
                                         None \<Rightarrow> Map.empty
                                       | Some files \<Rightarrow> files)(name \<mapsto> []))\<rparr>"

definition open_w :: "path \<Rightarrow> string \<Rightarrow> world \<Rightarrow> error + world" where
  "open_w bf name w =
     (case folders w bf of
        None \<Rightarrow> Inl (FileNotFoundError bf)
      | Some _ \<Rightarrow> Inr (create_file bf name w))"

text \<open>
  \<open>FileLock.__enter__\<close> calls \<open>fcntl.flock(fd, LOCK_EX)\<close>, which waits until no other
  open file holds the lock. Nothing else runs in this sequential model, so a lock that is
  held stays held and the call does not return: that is \<open>None\<close>.
  \<open>FileLock.__exit__\<close> calls \<open>fcntl.flock(fd, LOCK_UN)\<close>.
\<close>

definition acquire :: "path \<times> string \<Rightarrow> world \<Rightarrow> world" where
  "acquire l w = w\<lparr>flocks := insert l (flocks w)\<rparr>"

definition flock_ex :: "path \<times> string \<Rightarrow> world \<Rightarrow> world option" where
  "flock_ex l w = (if l \<in> flocks w then None else Some (acquire l w))"

definition flock_un :: "path \<times> string \<Rightarrow> world \<Rightarrow> world" where
  "flock_un l w = w\<lparr>flocks := flocks w - {l}\<rparr>"

text \<open>\<open>shutil.rmtree(bf)\<close>: the directory goes with all its files; a missing one raises.\<close>

definition rmtree :: "path \<Rightarrow> world \<Rightarrow> error + world" where
  "rmtree bf w =
     (case folders w bf of
        None \<Rightarrow> Inl (FileNotFoundError bf)
      | Some _ \<Rightarrow> Inr (w\<lparr>folders := (folders w)(bf := None)\<rparr>))"

subsection \<open>\<open>create_and_lock_build_folder\<close>: the wrapper\<close>

text \<open>
  A call of the wrapper returns a value, raises, or waits for the lock for ever. The
  first two come with the world they leave behind.
\<close>

datatype 'r outcome =
    Returned 'r world
  | Raised error world
  | Blocked

definition lock_name :: string where
  "lock_name = ''pykeops_build2.lock''"

text \<open>
  The wrapped function \<open>func\<close> is any action on the world that returns a value or raises;
  the world it gives back is the world at the moment it ends.

  What follows the call of \<open>func\<close>: \<open>FileLock.__exit__\<close> releases the lock and returns
  nothing, so an exception of \<open>func\<close> goes on to the caller and the lines after the
  \<open>with\<close> blocks are skipped. Otherwise the build folder is removed when the module is
  found and the build type is \<open>'Release'\<close>, and the result of \<open>func\<close> is returned.
\<close>

definition release_and_clean :: "keops_op \<Rightarrow> (error + 'r) \<times> world \<Rightarrow> 'r outcome" where
  "release_and_clean self res =
     (let bf = build_folder self in
      case res of
        (Inl e, w) \<Rightarrow> Raised e (flock_un (bf, lock_name) w)
      | (Inr func_res, w) \<Rightarrow>
          (let w' = flock_un (bf, lock_name) w in
           if module_exists (dll_name self) w' \<and> build_type w' = ''Release''
           then (case rmtree bf w' of
                   Inl e \<Rightarrow> Raised e w'
                 | Inr w'' \<Rightarrow> Returned func_res w'')
           else Returned func_res w'))"

definition wrapper_filelock ::
  "(world \<Rightarrow> (error + 'r) \<times> world) \<Rightarrow> keops_op \<Rightarrow> world \<Rightarrow> 'r outcome" where
  "wrapper_filelock func self w =
     (let bf = build_folder self;
          w1 = makedirs bf w
      in case open_w bf lock_name w1 of
           Inl e \<Rightarrow> Raised e w1
         | Inr w2 \<Rightarrow>
             (case flock_ex (bf, lock_name) w2 of
                None \<Rightarrow> Blocked
              | Some w3 \<Rightarrow> release_and_clean self (func w3)))"

text \<open>
  The world in which \<open>func\<close> runs when the lock is free: the folder is there, the lock
  file is in it and the lock is held.
\<close>

definition critical_world :: "path \<Rightarrow> world \<Rightarrow> world" where
  "critical_world bf w = acquire (bf, lock_name) (create_file bf lock_name (makedirs bf w))"

subsection \<open>Sample inputs\<close>

definition sample_op :: keops_op where
  "sample_op = \<lparr>build_folder = ''build'', dll_name = ''libKeOps''\<rparr>"

definition fresh_world :: "string \<Rightarrow> world" where
  "fresh_world bt = \<lparr>folders = Map.empty, flocks = {}, modules = {}, build_type = bt\<rparr>"

text \<open>A compilation that fails, and one that succeeds and makes the module loadable.\<close>

definition failing_action :: "world \<Rightarrow> (error + nat) \<times> world" where
  "failing_action w = (Inl (OtherError ''compilation failed''), w)"

definition compiling_action :: "string \<Rightarrow> world \<Rightarrow> (error + nat) \<times> world" where
  "compiling_action dll w = (Inr 0, w\<lparr>modules := insert dll (modules w)\<rparr>)"

text \<open>
  A compilation that succeeds while the clean-up of another process removes the build
  folder: at its end the module is loadable and the folder is gone.
\<close>

definition racing_action :: "path \<Rightarrow> string \<Rightarrow> world \<Rightarrow> (error + nat) \<times> world" where
  "racing_action bf dll w =
     (Inr 0, w\<lparr>folders := (folders w)(bf := None), modules := insert dll (modules w)\<rparr>)"



section \<open>Properties of the pure functions\<close>

lemma padded_dims_left_pad:
  "padded_dims other dims = left_pad (max (length dims) (length other)) dims"
  by (simp add: padded_dims_def left_pad_def nat_diff_distrib' max_def)

lemma length_left_pad_max:
  "length (left_pad (max (length a) (length b)) a) = max (length a) (length b)"
  by (simp add: left_pad_def)

lemma check_loop_char:
  "check_loop d1 d2 ps =
     (if list_all compatible ps then Inr ()
      else Inl (ValueError (IncompatibleBatchDimensions d1 d2)))"
  by (induction ps) (auto simp: compatible_def)

lemma check_broadcasting_Some:
  "check_broadcasting (Some d1) (Some d2) =
     (if list_all compatible (zip (padded_dims d2 d1) (padded_dims d1 d2))
      then Inr (Some (max_tuple (padded_dims d2 d1) (padded_dims d1 d2)))
      else Inl (ValueError (IncompatibleBatchDimensions d1 d2)))"
  by (simp add: check_loop_char)

lemma list_all_compatible_swap:
  "list_all compatible (zip xs ys) = list_all compatible (zip ys xs)"
proof (induction xs arbitrary: ys)
  case Nil
  then show ?case by simp
next
  case (Cons x xs)
  then show ?case by (cases ys) (auto simp: compatible_def)
qed

lemma max_tuple_swap: "max_tuple xs ys = max_tuple ys xs"
proof (induction xs arbitrary: ys)
  case Nil
  then show ?case by (simp add: max_tuple_def)
next
  case (Cons x xs)
  then show ?case by (cases ys) (auto simp: max_tuple_def max.commute)
qed

subsection \<open>Broadcasting of batch dimensions\<close>

text \<open>
  Claim C1. For two shapes that are both given, \<open>check_broadcasting\<close> pads the shorter
  one on the left with 1s, so that both have the length of the longer one. It succeeds
  exactly when every pair of aligned dimensions is compatible (equal, or one of them 1),
  and the result is then the elementwise maximum of the padded shapes. Otherwise it raises
  the \<open>ValueError\<close> whose message holds the two shapes as they were passed, unpadded.
\<close>

theorem check_broadcasting_merges:
  "let n = max (length d1) (length d2);
       p1 = left_pad n d1;
       p2 = left_pad n d2
   in length p1 = n \<and> length p2 = n \<and>
      check_broadcasting (Some d1) (Some d2) =
        (if list_all compatible (zip p1 p2)
         then Inr (Some (map (\<lambda>(a, b). max a b) (zip p1 p2)))
         else Inl (ValueError (IncompatibleBatchDimensions d1 d2)))"
proof -
  have p1: "padded_dims d2 d1 = left_pad (max (length d1) (length d2)) d1"
    by (rule padded_dims_left_pad)
  have p2: "padded_dims d1 d2 = left_pad (max (length d1) (length d2)) d2"
    by (simp add: padded_dims_left_pad max.commute)
  have len2: "length (left_pad (max (length d1) (length d2)) d2) = max (length d1) (length d2)"
    using length_left_pad_max [of d2 d1] by (simp add: max.commute)
  show ?thesis
    unfolding Let_def check_broadcasting_Some p1 p2 max_tuple_def
    using length_left_pad_max [of d1 d2] len2
    by simp
qed

text \<open>
  The theorem at \<open>(5,)\<close> and \<open>(3, 5)\<close>, which merge to \<open>(3, 5)\<close>, and at \<open>(3, 4)\<close> and
  \<open>(2, 4)\<close>, which do not merge.
\<close>

theorem check_broadcasting_merges_witness:
  "list_all compatible (zip (left_pad 2 [5]) (left_pad 2 [3, 5])) \<and>
   check_broadcasting (Some [5]) (Some [3, 5]) = Inr (Some [3, 5]) \<and>
   \<not> list_all compatible (zip (left_pad 2 [3, 4]) (left_pad 2 [2, 4])) \<and>
   check_broadcasting (Some [3, 4]) (Some [2, 4]) =
     Inl (ValueError (IncompatibleBatchDimensions [3, 4] [2, 4]))"
  using check_broadcasting_merges [of "[5]" "[3, 5]"]
        check_broadcasting_merges [of "[3, 4]" "[2, 4]"]
  by (simp add: left_pad_def compatible_def Let_def)

text \<open>
  Claim C8. An absent shape is the identity of \<open>check_broadcasting\<close> on either side: the
  other argument comes back unchanged, also when it is absent too.
\<close>

theorem check_broadcasting_None:
  "check_broadcasting None s = Inr s \<and> check_broadcasting s None = Inr s"
  by (cases s) simp_all

text \<open>
  Claim C9. \<open>check_broadcasting\<close> is commutative: when it succeeds on \<open>a\<close> and \<open>b\<close> it
  succeeds on \<open>b\<close> and \<open>a\<close> with the same result, and it raises in one order exactly
  when it raises in the other.
\<close>

theorem check_broadcasting_commutes:
  "(check_broadcasting a b = Inr r \<longrightarrow> check_broadcasting b a = Inr r) \<and>
   (isl (check_broadcasting a b) \<longleftrightarrow> isl (check_broadcasting b a))"
proof (cases a)
  case None
  then show ?thesis by (cases b) auto
next
  case a: (Some d1)
  show ?thesis
  proof (cases b)
    case None
    with a show ?thesis by auto
  next
    case (Some d2)
    have sw: "list_all compatible (zip (padded_dims d1 d2) (padded_dims d2 d1)) =
              list_all compatible (zip (padded_dims d2 d1) (padded_dims d1 d2))"
      by (rule list_all_compatible_swap)
    have mx: "max_tuple (padded_dims d1 d2) (padded_dims d2 d1) =
              max_tuple (padded_dims d2 d1) (padded_dims d1 d2)"
      by (rule max_tuple_swap)
    show ?thesis
      unfolding a Some check_broadcasting_Some sw mx by simp
  qed
qed

theorem check_broadcasting_commutes_witness:
  "check_broadcasting (Some [1, 5]) (Some [3, 5]) = Inr (Some [3, 5]) \<and>
   check_broadcasting (Some [3, 5]) (Some [1, 5]) = Inr (Some [3, 5])"
  using check_broadcasting_commutes [of "Some [1, 5]" "Some [3, 5]" "Some [3, 5]"]
  by (simp add: padded_dims_def max_tuple_def)

subsection \<open>Axis and category\<close>

text \<open>
  Claim C10. On 0 and 1, \<open>axis2cat\<close> and \<open>cat2axis\<close> both return \<open>(a + 1) mod 2\<close>, so
  each undoes the other; on any other integer both raise a \<open>ValueError\<close>.
\<close>

theorem axis2cat_cat2axis_inverse:
  "(a \<in> {0, 1} \<longrightarrow>
      axis2cat a = Inr ((a + 1) mod 2) \<and> cat2axis a = Inr ((a + 1) mod 2) \<and>
      (case axis2cat a of Inl e \<Rightarrow> Inl e | Inr c \<Rightarrow> cat2axis c) = Inr a \<and>
      (case cat2axis a of Inl e \<Rightarrow> Inl e | Inr c \<Rightarrow> axis2cat c) = Inr a) \<and>
   (a \<notin> {0, 1} \<longrightarrow>
      axis2cat a = Inl (ValueError (Text ''Axis should be 0 or 1.'')) \<and>
      cat2axis a = Inl (ValueError (Text ''Category should be Vi or Vj.'')))"
  by (auto simp: axis2cat_def cat2axis_def)

theorem axis2cat_cat2axis_inverse_witness:
  "(0::int) \<in> {0, 1} \<and> axis2cat 0 = Inr 1 \<and> cat2axis 0 = Inr 1 \<and>
   (case axis2cat 0 of Inl e \<Rightarrow> Inl e | Inr c \<Rightarrow> cat2axis c) = Inr 0 \<and>
   (2::int) \<notin> {0, 1} \<and>
   axis2cat 2 = Inl (ValueError (Text ''Axis should be 0 or 1.'')) \<and>
   cat2axis 2 = Inl (ValueError (Text ''Category should be Vi or Vj.''))"
  using axis2cat_cat2axis_inverse [of 0] axis2cat_cat2axis_inverse [of 2]
  by (simp add: cat2axis_def)

subsection \<open>Choice of the backend\<close>

text \<open>
  Claim C4. The claim asks for an explicit error that says the backend is unknown. On a
  name that is none of \<open>numpy\<close>, \<open>torch\<close> and \<open>pytorch\<close>, \<open>get_tools\<close> assigns nothing to
  \<open>tools\<close> and its \<open>return tools\<close> raises \<open>UnboundLocalError\<close> for that variable: here
  at \<open>bogus\<close>.
\<close>

theorem get_tools_bogus:
  "get_tools numpytools torchtools ''bogus'' = Inl (UnboundLocalError ''tools'')"
  by (simp add: get_tools_def)

subsection \<open>The wrapper: compilation under the lock\<close>

lemma makedirs_exists: "folders (makedirs bf w) bf \<noteq> None"
  by (simp add: makedirs_def split: option.splits)


lemma open_w_after_makedirs:
  "open_w bf name (makedirs bf w) = Inr (create_file bf name (makedirs bf w))"
  using makedirs_exists [of bf w] by (auto simp: open_w_def split: option.splits)

lemma flocks_setup: "flocks (create_file bf name (makedirs bf w)) = flocks w"
  by (simp add: create_file_def makedirs_def split: option.splits)

lemma wrapper_free:
  assumes "(build_folder self, lock_name) \<notin> flocks w"
  shows "wrapper_filelock func self w =
         release_and_clean self (func (critical_world (build_folder self) w))"
  using assms
  by (simp add: wrapper_filelock_def Let_def open_w_after_makedirs flock_ex_def
      flocks_setup critical_world_def)

lemma wrapper_held:
  assumes "(build_folder self, lock_name) \<in> flocks w"
  shows "wrapper_filelock func self w = Blocked"
  using assms
  by (simp add: wrapper_filelock_def Let_def open_w_after_makedirs flock_ex_def flocks_setup)



lemma flock_un_free: "l \<notin> flocks (flock_un l w)"
  by (simp add: flock_un_def)

lemma flock_un_folders: "folders (flock_un l w) = folders w"
  by (simp add: flock_un_def)

lemma flock_un_modules: "module_exists d (flock_un l w) = module_exists d w"
  by (simp add: flock_un_def module_exists_def)

lemma flock_un_build_type: "build_type (flock_un l w) = build_type w"
  by (simp add: flock_un_def)

lemma release_and_clean_Inl:
  "release_and_clean self (Inl e, w) = Raised e (flock_un (build_folder self, lock_name) w)"
  by (simp add: release_and_clean_def)

lemma release_and_clean_Inr:
  "release_and_clean self (Inr r, w) =
     (if module_exists (dll_name self) w \<and> build_type w = ''Release''
      then (case folders w (build_folder self) of
              None \<Rightarrow> Raised (FileNotFoundError (build_folder self))
                        (flock_un (build_folder self, lock_name) w)
            | Some _ \<Rightarrow> Returned r
                ((flock_un (build_folder self, lock_name) w)
                   \<lparr>folders := (folders w)(build_folder self := None)\<rparr>))
      else Returned r (flock_un (build_folder self, lock_name) w))"
  by (simp add: release_and_clean_def Let_def rmtree_def flock_un_folders flock_un_modules
      flock_un_build_type split: option.splits)

text \<open>
  Claim C2. When the lock is free, so that the wrapper reaches the compilation action, and
  the action raises, the wrapper raises the same exception. The world it leaves is the
  one the action left with the lock released: the lock can be taken again, a later call
  of the wrapper does not wait, and no folder has been removed.
\<close>

theorem failure_releases_lock:
  assumes "(build_folder self, lock_name) \<notin> flocks w"
    and "func (critical_world (build_folder self) w) = (Inl e, w')"
  shows "wrapper_filelock func self w = Raised e (flock_un (build_folder self, lock_name) w') \<and>
         flock_ex (build_folder self, lock_name) (flock_un (build_folder self, lock_name) w') =
           Some (acquire (build_folder self, lock_name)
                  (flock_un (build_folder self, lock_name) w')) \<and>
         wrapper_filelock later self (flock_un (build_folder self, lock_name) w') \<noteq> Blocked \<and>
         folders (flock_un (build_folder self, lock_name) w') = folders w'"
proof -
  let ?l = "(build_folder self, lock_name)"
  have r: "wrapper_filelock func self w = Raised e (flock_un ?l w')"
    using assms by (simp add: wrapper_free release_and_clean_Inl)
  have a: "flock_ex ?l (flock_un ?l w') = Some (acquire ?l (flock_un ?l w'))"
    by (simp add: flock_ex_def flock_un_free)
  have "wrapper_filelock later self (flock_un ?l w') =
        release_and_clean self
          (later (critical_world (build_folder self) (flock_un ?l w')))"
    by (rule wrapper_free) (rule flock_un_free)
  then have n: "wrapper_filelock later self (flock_un ?l w') \<noteq> Blocked"
    by (cases "later (critical_world (build_folder self) (flock_un ?l w'))")
       (auto simp: release_and_clean_def Let_def split: sum.splits)
  from r a n show ?thesis by (simp add: flock_un_folders)
qed

theorem failure_releases_lock_witness:
  "(build_folder sample_op, lock_name) \<notin> flocks (fresh_world ''Release'') \<and>
   failing_action (critical_world (build_folder sample_op) (fresh_world ''Release'')) =
     (Inl (OtherError ''compilation failed''),
      critical_world (build_folder sample_op) (fresh_world ''Release'')) \<and>
   wrapper_filelock failing_action sample_op (fresh_world ''Release'') =
     Raised (OtherError ''compilation failed'')
       (flock_un (build_folder sample_op, lock_name)
          (critical_world (build_folder sample_op) (fresh_world ''Release''))) \<and>
   folders (flock_un (build_folder sample_op, lock_name)
          (critical_world (build_folder sample_op) (fresh_world ''Release''))) ''build'' \<noteq> None"
proof -
  have h1: "(build_folder sample_op, lock_name) \<notin> flocks (fresh_world ''Release'')"
    by (simp add: fresh_world_def)
  have h2: "failing_action (critical_world (build_folder sample_op) (fresh_world ''Release'')) =
     (Inl (OtherError ''compilation failed''),
      critical_world (build_folder sample_op) (fresh_world ''Release''))"
    by (simp add: failing_action_def)
  have h3: "folders (critical_world (build_folder sample_op) (fresh_world ''Release'')) ''build'' \<noteq> None"
    by (simp add: critical_world_def acquire_def create_file_def sample_op_def)
  from failure_releases_lock
         [where self = sample_op and func = failing_action and later = failing_action, OF h1 h2]
       h1 h2 h3
  show ?thesis
    by simp
qed


text \<open>
  The build folder may be gone when the wrapper comes to remove it. At the sample input
  the action succeeds with 0, the module is found, the build type is \<open>Release\<close> and
  the folder is absent: \<open>shutil.rmtree\<close> raises \<open>FileNotFoundError\<close>, and the wrapper
  ends with that exception in place of the action's result.
\<close>

theorem stale_cleanup_race_counterexample:
  "fst (racing_action ''build'' ''libKeOps''
          (critical_world ''build'' (fresh_world ''Release''))) = Inr 0 \<and>
   module_exists (dll_name sample_op)
     (snd (racing_action ''build'' ''libKeOps''
             (critical_world ''build'' (fresh_world ''Release'')))) \<and>
   build_type
     (snd (racing_action ''build'' ''libKeOps''
             (critical_world ''build'' (fresh_world ''Release'')))) = ''Release'' \<and>
   folders
     (snd (racing_action ''build'' ''libKeOps''
             (critical_world ''build'' (fresh_world ''Release'')))) ''build'' = None \<and>
   wrapper_filelock (racing_action ''build'' ''libKeOps'') sample_op (fresh_world ''Release'') =
     Raised (FileNotFoundError ''build'')
       (flock_un (''build'', lock_name)
          (snd (racing_action ''build'' ''libKeOps''
                  (critical_world ''build'' (fresh_world ''Release'')))))"
proof -
  have free: "(build_folder sample_op, lock_name) \<notin> flocks (fresh_world ''Release'')"
    by (simp add: fresh_world_def)
  have bf: "build_folder sample_op = ''build''" and dll: "dll_name sample_op = ''libKeOps''"
    by (simp_all add: sample_op_def)
  have m: "module_exists ''libKeOps''
     (snd (racing_action ''build'' ''libKeOps''
             (critical_world ''build'' (fresh_world ''Release''))))"
    by (simp add: racing_action_def module_exists_def)
  have b: "build_type
     (snd (racing_action ''build'' ''libKeOps''
             (critical_world ''build'' (fresh_world ''Release'')))) = ''Release''"
    by (simp add: racing_action_def critical_world_def acquire_def create_file_def
        makedirs_def fresh_world_def)
  have f: "folders
     (snd (racing_action ''build'' ''libKeOps''
             (critical_world ''build'' (fresh_world ''Release'')))) ''build'' = None"
    by (simp add: racing_action_def)
  have r: "racing_action ''build'' ''libKeOps''
          (critical_world ''build'' (fresh_world ''Release'')) =
        (Inr 0, snd (racing_action ''build'' ''libKeOps''
          (critical_world ''build'' (fresh_world ''Release''))))"
    by (simp add: racing_action_def)
  have "wrapper_filelock (racing_action ''build'' ''libKeOps'') sample_op (fresh_world ''Release'') =
     Raised (FileNotFoundError ''build'')
       (flock_un (''build'', lock_name)
          (snd (racing_action ''build'' ''libKeOps''
                  (critical_world ''build'' (fresh_world ''Release'')))))"
    unfolding wrapper_free [OF free] bf
    by (subst r) (simp only: release_and_clean_Inr bf dll m b f, simp)
  moreover have "fst (racing_action ''build'' ''libKeOps''
          (critical_world ''build'' (fresh_world ''Release''))) = Inr 0"
    by (simp add: racing_action_def)
  ultimately show ?thesis
    using m b f unfolding dll by blast
qed

text \<open>
  Claim C3, amended. When the action succeeds, the module is found, the build type is
  \<open>Release\<close> and the build folder is absent at the time of the removal, the wrapper
  raises the \<open>FileNotFoundError\<close> of \<open>shutil.rmtree\<close> for the build folder; the lock
  has been released before.
\<close>

theorem cleanup_of_missing_folder_raises:
  assumes "(build_folder self, lock_name) \<notin> flocks w"
    and "func (critical_world (build_folder self) w) = (Inr r, w')"
    and "module_exists (dll_name self) w'"
    and "build_type w' = ''Release''"
    and "folders w' (build_folder self) = None"
  shows "wrapper_filelock func self w =
           Raised (FileNotFoundError (build_folder self))
             (flock_un (build_folder self, lock_name) w') \<and>
         (build_folder self, lock_name) \<notin> flocks (flock_un (build_folder self, lock_name) w')"
  using assms by (simp add: wrapper_free release_and_clean_Inr flock_un_free)

theorem cleanup_of_missing_folder_raises_witness:
  "(build_folder sample_op, lock_name) \<notin> flocks (fresh_world ''Release'') \<and>
   racing_action ''build'' ''libKeOps''
       (critical_world (build_folder sample_op) (fresh_world ''Release'')) =
     (Inr 0, snd (racing_action ''build'' ''libKeOps''
       (critical_world (build_folder sample_op) (fresh_world ''Release'')))) \<and>
   module_exists (dll_name sample_op)
     (snd (racing_action ''build'' ''libKeOps''
       (critical_world (build_folder sample_op) (fresh_world ''Release'')))) \<and>
   build_type (snd (racing_action ''build'' ''libKeOps''
       (critical_world (build_folder sample_op) (fresh_world ''Release'')))) = ''Release'' \<and>
   folders (snd (racing_action ''build'' ''libKeOps''
       (critical_world (build_folder sample_op) (fresh_world ''Release''))))
     (build_folder sample_op) = None \<and>
   wrapper_filelock (racing_action ''build'' ''libKeOps'') sample_op (fresh_world ''Release'') =
     Raised (FileNotFoundError (build_folder sample_op))
       (flock_un (build_folder sample_op, lock_name)
          (snd (racing_action ''build'' ''libKeOps''
             (critical_world (build_folder sample_op) (fresh_world ''Release'')))))"
proof -
  let ?w' = "snd (racing_action ''build'' ''libKeOps''
       (critical_world (build_folder sample_op) (fresh_world ''Release'')))"
  have h1: "(build_folder sample_op, lock_name) \<notin> flocks (fresh_world ''Release'')"
    by (simp add: fresh_world_def)
  have h2: "racing_action ''build'' ''libKeOps''
       (critical_world (build_folder sample_op) (fresh_world ''Release'')) = (Inr 0, ?w')"
    by (simp add: racing_action_def)
  have h3: "module_exists (dll_name sample_op) ?w'"
    by (simp add: racing_action_def module_exists_def sample_op_def)
  have h4: "build_type ?w' = ''Release''"
    by (simp add: racing_action_def critical_world_def acquire_def create_file_def
        makedirs_def fresh_world_def)
  have h5: "folders ?w' (build_folder sample_op) = None"
    by (simp add: racing_action_def sample_op_def)
  from cleanup_of_missing_folder_raises
         [where self = sample_op and func = "racing_action ''build'' ''libKeOps''",
          OF h1 h2 h3 h4 h5] h1 h2 h3 h4 h5
  show ?thesis by simp
qed


lemma wrapper_Returned_free:
  assumes "wrapper_filelock func self w = Returned r w_end"
  shows "(build_folder self, lock_name) \<notin> flocks w"
proof (rule ccontr)
  assume "\<not> (build_folder self, lock_name) \<notin> flocks w"
  then have "wrapper_filelock func self w = Blocked"
    by (simp add: wrapper_held)
  with assms show False by simp
qed

text \<open>
  Claim C5. After a call that returns, the value is the one the action returned, and:
  when the module is found and the build type is \<open>Release\<close>, the build folder is gone
  and every other folder is as the action left it; otherwise all folders and their files
  are as the action left them, so the build folder is still there with its content.
\<close>

theorem cleanup_after_success:
  assumes "wrapper_filelock func self w = Returned r w_end"
  shows "let bf = build_folder self;
             w' = snd (func (critical_world bf w))
         in fst (func (critical_world bf w)) = Inr r \<and>
            (if module_exists (dll_name self) w' \<and> build_type w' = ''Release''
             then folders w_end = (folders w')(bf := None) \<and> folders w_end bf = None
             else folders w_end = folders w' \<and>
                  (folders w' bf \<noteq> None \<longrightarrow> folders w_end bf \<noteq> None))"
proof -
  let ?bf = "build_folder self"
  obtain res w' where f: "func (critical_world ?bf w) = (res, w')"
    by (cases "func (critical_world ?bf w)")
  have free: "(?bf, lock_name) \<notin> flocks w"
    using assms by (rule wrapper_Returned_free)
  have eq: "release_and_clean self (res, w') = Returned r w_end"
    using assms f by (simp add: wrapper_free [OF free])
  show ?thesis
  proof (cases res)
    case (Inl e)
    with eq show ?thesis by (simp add: release_and_clean_Inl)
  next
    case (Inr x)
    with eq f show ?thesis
      by (auto simp: release_and_clean_Inr Let_def flock_un_folders
          split: if_splits option.splits)
  qed
qed

theorem cleanup_after_success_witness:
  "wrapper_filelock (compiling_action ''libKeOps'') sample_op (fresh_world ''Release'') =
     Returned 0
       ((flock_un (''build'', lock_name)
           (snd (compiling_action ''libKeOps'' (critical_world ''build'' (fresh_world ''Release'')))))
        \<lparr>folders := (folders (snd (compiling_action ''libKeOps''
             (critical_world ''build'' (fresh_world ''Release'')))))(''build'' := None)\<rparr>) \<and>
   folders
       ((flock_un (''build'', lock_name)
           (snd (compiling_action ''libKeOps'' (critical_world ''build'' (fresh_world ''Release'')))))
        \<lparr>folders := (folders (snd (compiling_action ''libKeOps''
             (critical_world ''build'' (fresh_world ''Release'')))))(''build'' := None)\<rparr>)
       ''build'' = None \<and>
   wrapper_filelock (compiling_action ''libKeOps'') sample_op (fresh_world ''Debug'') =
     Returned 0
       (flock_un (''build'', lock_name)
          (snd (compiling_action ''libKeOps'' (critical_world ''build'' (fresh_world ''Debug''))))) \<and>
   folders
       (flock_un (''build'', lock_name)
          (snd (compiling_action ''libKeOps'' (critical_world ''build'' (fresh_world ''Debug'')))))
       ''build'' = Some [lock_name \<mapsto> []]"
proof -
  let ?rel = "snd (compiling_action ''libKeOps'' (critical_world ''build'' (fresh_world ''Release'')))"
  let ?dbg = "snd (compiling_action ''libKeOps'' (critical_world ''build'' (fresh_world ''Debug'')))"
  have bf: "build_folder sample_op = ''build''" and dll: "dll_name sample_op = ''libKeOps''"
    by (simp_all add: sample_op_def)
  have free: "\<And>bt. (build_folder sample_op, lock_name) \<notin> flocks (fresh_world bt)"
    by (simp add: fresh_world_def)
  have act: "\<And>w. compiling_action ''libKeOps'' w = (Inr 0, snd (compiling_action ''libKeOps'' w))"
    by (simp add: compiling_action_def)
  have m: "\<And>w. module_exists ''libKeOps'' (snd (compiling_action ''libKeOps'' w))"
    by (simp add: compiling_action_def module_exists_def)
  have bt: "\<And>b. build_type (snd (compiling_action ''libKeOps''
              (critical_world ''build'' (fresh_world b)))) = b"
    by (simp add: compiling_action_def critical_world_def acquire_def create_file_def
        makedirs_def fresh_world_def)
  have fo: "\<And>b. folders (snd (compiling_action ''libKeOps''
              (critical_world ''build'' (fresh_world b)))) ''build'' = Some [lock_name \<mapsto> []]"
    by (simp add: compiling_action_def critical_world_def acquire_def create_file_def
        makedirs_def fresh_world_def)
  have r1: "wrapper_filelock (compiling_action ''libKeOps'') sample_op (fresh_world ''Release'') =
     Returned 0 ((flock_un (''build'', lock_name) ?rel)
        \<lparr>folders := (folders ?rel)(''build'' := None)\<rparr>)"
    unfolding wrapper_free [OF free] bf
    by (subst act) (simp add: release_and_clean_Inr bf dll m bt fo)
  have r2: "wrapper_filelock (compiling_action ''libKeOps'') sample_op (fresh_world ''Debug'') =
     Returned 0 (flock_un (''build'', lock_name) ?dbg)"
    unfolding wrapper_free [OF free] bf
    by (subst act) (simp add: release_and_clean_Inr bf dll m bt fo)
  from cleanup_after_success [OF r1] cleanup_after_success [OF r2] r1 r2
  show ?thesis
    by (simp add: flock_un_folders fo)
qed






end
